theory Spec2Isabelle
  imports Complex_Main "HOL-Library.AList" "HOL-Library.Multiset" "HOL-Library.Product_Lexorder"
begin

section \<open>Python values, dictionaries and errors\<close>

text \<open>
  The services of the RAG engine are Python classes (the code blocks of
  \<^verbatim>\<open>fasi/05-sistema-rag-avanzato.md\<close> and of the indexing phase in
  \<^verbatim>\<open>fasi/considerazioni-tecniche.md\<close>). A Python \<^verbatim>\<open>str\<close> is a
  \<^typ>\<open>string\<close> whose characters are the code points below 256, a \<^verbatim>\<open>float\<close> is
  idealised as a \<^typ>\<open>real\<close>, an \<^verbatim>\<open>int\<close> is an \<^typ>\<open>int\<close>. A dictionary is an
  association list in insertion order: \<^const>\<open>map_of\<close> reads a key and
  \<^const>\<open>AList.update\<close> writes one (an existing key keeps its place, a new key goes last,
  as in Python).
\<close>

datatype pyval =
    PNone
  | PBool bool
  | PInt int
  | PFloat real
  | PStr string
  | PList "pyval list"
  | PDict "(string \<times> pyval) list"

type_synonym pydict = "(string \<times> pyval) list"

text \<open>\<^verbatim>\<open>d.get(k)\<close>: the value, or \<^verbatim>\<open>None\<close> for a missing key.\<close>

definition dict_get :: "pydict \<Rightarrow> string \<Rightarrow> pyval" where
  "dict_get d k = (case map_of d k of None \<Rightarrow> PNone | Some v \<Rightarrow> v)"

text \<open>\<^verbatim>\<open>d.get(k, default)\<close>.\<close>

definition dict_get_default :: "pydict \<Rightarrow> string \<Rightarrow> pyval \<Rightarrow> pyval" where
  "dict_get_default d k dflt = (case map_of d k of None \<Rightarrow> dflt | Some v \<Rightarrow> v)"

text \<open>
  Everything a call can raise. The first five are the failures of the external
  collaborators (embedding capability, completion capability, vector database, document
  database, document processing), each with the message the collaborator gives it; the
  last three are raised by Python itself.
\<close>

datatype error =
    EmbeddingServiceError string
  | GenerationError string
  | VectorStoreError string
  | DatabaseError string
  | ProcessingError string
  | ValueError
  | TypeError string
  | ZeroDivisionError

text \<open>\<^verbatim>\<open>str(e)\<close> of an exception, as the indexing job records it.\<close>

fun str_of_error :: "error \<Rightarrow> string" where
  "str_of_error (EmbeddingServiceError m) = m"
| "str_of_error (GenerationError m) = m"
| "str_of_error (VectorStoreError m) = m"
| "str_of_error (DatabaseError m) = m"
| "str_of_error (ProcessingError m) = m"
| "str_of_error ValueError = ''range() arg 3 must not be zero''"
| "str_of_error (TypeError m) = m"
| "str_of_error ZeroDivisionError = ''division by zero''"

subsection \<open>Ranges and slices\<close>

text \<open>
  \<^verbatim>\<open>range(i, stop, step)\<close> for a positive step, counting up from \<open>i\<close>.
\<close>

function range_up :: "int \<Rightarrow> int \<Rightarrow> int \<Rightarrow> int list" where
  "range_up i stop step =
     (if 0 < step \<and> i < stop then i # range_up (i + step) stop step else [])"
  by pat_completeness auto
termination
  by (relation "measure (\<lambda>(i, stop, step). nat (stop - i))") auto

declare range_up.simps [simp del]

text \<open>
  \<^verbatim>\<open>range(0, n, step)\<close> where \<open>n\<close> is a length: a zero step raises
  \<^verbatim>\<open>ValueError\<close>, a negative step gives the empty range (0 is not above \<open>n\<close>).
\<close>

definition py_range0 :: "nat \<Rightarrow> int \<Rightarrow> error + int list" where
  "py_range0 n step =
     (if step = 0 then Inl ValueError
      else if step < 0 then Inr []
      else Inr (range_up 0 (int n) step))"

text \<open>
  \<^verbatim>\<open>xs[i:j]\<close>: a negative bound counts from the end, and both bounds are clamped to
  the list.
\<close>

definition slice_bound :: "nat \<Rightarrow> int \<Rightarrow> nat" where
  "slice_bound n k = (if k < 0 then nat (max 0 (k + int n)) else min (nat k) n)"

definition py_slice :: "'a list \<Rightarrow> int \<Rightarrow> int \<Rightarrow> 'a list" where
  "py_slice xs i j =
     (let lo = slice_bound (length xs) i; hi = slice_bound (length xs) j
      in take (hi - lo) (drop lo xs))"

section \<open>Batched embedding\<close>

text \<open>
  \<^verbatim>\<open>AzureAIService.generate_embedding\<close> is the external embedding capability: a call
  returns a vector or raises. \<^verbatim>\<open>asyncio.gather\<close> over a batch returns the results in
  the order of the batch, or raises the failure of a call (the model takes the first in
  batch order).
\<close>

type_synonym vector = "real list"

type_synonym embedder = "string \<Rightarrow> error + vector"

fun gather :: "('a \<Rightarrow> error + 'b) \<Rightarrow> 'a list \<Rightarrow> error + 'b list" where
  "gather f [] = Inr []"
| "gather f (x # xs) =
     (case f x of
        Inl e \<Rightarrow> Inl e
      | Inr y \<Rightarrow> (case gather f xs of Inl e \<Rightarrow> Inl e | Inr ys \<Rightarrow> Inr (y # ys)))"

text \<open>
  The loop of \<^verbatim>\<open>RAGService._generate_embeddings_batch\<close> over the batch starts:
  \<^verbatim>\<open>batch = texts[i:i + batch_size]\<close>, gather, \<^verbatim>\<open>embeddings.extend(...)\<close>.
\<close>

fun embeddings_loop ::
  "embedder \<Rightarrow> string list \<Rightarrow> int \<Rightarrow> int list \<Rightarrow> vector list \<Rightarrow> error + vector list" where
  "embeddings_loop gen texts batch_size [] embeddings = Inr embeddings"
| "embeddings_loop gen texts batch_size (i # is) embeddings =
     (case gather gen (py_slice texts i (i + batch_size)) of
        Inl e \<Rightarrow> Inl e
      | Inr batch_embeddings \<Rightarrow>
          embeddings_loop gen texts batch_size is (embeddings @ batch_embeddings))"

definition generate_embeddings_batch ::
  "embedder \<Rightarrow> string list \<Rightarrow> int \<Rightarrow> error + vector list" where
  "generate_embeddings_batch gen texts batch_size =
     (case py_range0 (length texts) batch_size of
        Inl e \<Rightarrow> Inl e
      | Inr starts \<Rightarrow> embeddings_loop gen texts batch_size starts [])"

section \<open>Strings\<close>

text \<open>
  \<^verbatim>\<open>str.isspace\<close> on the code points below 256; \<^verbatim>\<open>str.strip\<close>,
  \<^verbatim>\<open>str.split\<close> and the regular expression class \<^verbatim>\<open>\s\<close> all use it.
\<close>

definition is_space :: "char \<Rightarrow> bool" where
  "is_space c = (of_char c \<in> {9, 10, 11, 12, 13, 28, 29, 30, 31, 32, 133, 160 :: nat})"

definition strip :: "string \<Rightarrow> string" where
  "strip s = rev (dropWhile is_space (rev (dropWhile is_space s)))"

text \<open>
  The maximal runs of characters that are not separators; \<^verbatim>\<open>s.split()\<close> is the
  case where the separators are the whitespace characters.
\<close>

fun split_at :: "(char \<Rightarrow> bool) \<Rightarrow> string \<Rightarrow> string \<Rightarrow> string list" where
  "split_at sep acc [] = (if acc = [] then [] else [acc])"
| "split_at sep acc (c # cs) =
     (if sep c then (if acc = [] then split_at sep [] cs else acc # split_at sep [] cs)
      else split_at sep (acc @ [c]) cs)"

definition py_split :: "string \<Rightarrow> string list" where
  "py_split s = split_at is_space [] s"

text \<open>\<^verbatim>\<open>s.split('\n\n')\<close>: cut at every blank line, left to right.\<close>

fun split_nn :: "string \<Rightarrow> string \<Rightarrow> string list" where
  "split_nn acc (a # b # rest) =
     (if a = CHR 0x0A \<and> b = CHR 0x0A then acc # split_nn [] rest
      else split_nn (acc @ [a]) (b # rest))"
| "split_nn acc [a] = [acc @ [a]]"
| "split_nn acc [] = [acc]"

definition split_paragraphs :: "string \<Rightarrow> string list" where
  "split_paragraphs s = split_nn [] s"

text \<open>
  \<^verbatim>\<open>str.lower\<close> on the code points below 256: the letters A to Z and the accented
  capitals 0xC0 to 0xDE (the multiplication sign 0xD7 apart) have a lower-case form, 32
  code points up.
\<close>

definition upper_chars :: string where
  "upper_chars =
     ''ABCDEFGHIJKLMNOPQRSTUVWXYZ'' @
       [CHR 0xC0, CHR 0xC1, CHR 0xC2, CHR 0xC3, CHR 0xC4, CHR 0xC5, CHR 0xC6, CHR 0xC7,
        CHR 0xC8, CHR 0xC9, CHR 0xCA, CHR 0xCB, CHR 0xCC, CHR 0xCD, CHR 0xCE, CHR 0xCF,
        CHR 0xD0, CHR 0xD1, CHR 0xD2, CHR 0xD3, CHR 0xD4, CHR 0xD5, CHR 0xD6, CHR 0xD8,
        CHR 0xD9, CHR 0xDA, CHR 0xDB, CHR 0xDC, CHR 0xDD, CHR 0xDE]"

definition lower_chars :: string where
  "lower_chars =
     ''abcdefghijklmnopqrstuvwxyz'' @
       [CHR 0xE0, CHR 0xE1, CHR 0xE2, CHR 0xE3, CHR 0xE4, CHR 0xE5, CHR 0xE6, CHR 0xE7,
        CHR 0xE8, CHR 0xE9, CHR 0xEA, CHR 0xEB, CHR 0xEC, CHR 0xED, CHR 0xEE, CHR 0xEF,
        CHR 0xF0, CHR 0xF1, CHR 0xF2, CHR 0xF3, CHR 0xF4, CHR 0xF5, CHR 0xF6, CHR 0xF8,
        CHR 0xF9, CHR 0xFA, CHR 0xFB, CHR 0xFC, CHR 0xFD, CHR 0xFE]"

definition lower_char :: "char \<Rightarrow> char" where
  "lower_char c = (case map_of (zip upper_chars lower_chars) c of Some d \<Rightarrow> d | None \<Rightarrow> c)"

definition lower :: "string \<Rightarrow> string" where
  "lower s = map lower_char s"

section \<open>Chunking\<close>

text \<open>
  The tokenizer is tiktoken's \<^verbatim>\<open>cl100k_base\<close> encoding, an external library: the
  strategies take it as a field, and the theorems hold for every tokenizer.
\<close>

record 'tok tokenizer =
  encode :: "string \<Rightarrow> 'tok list"
  decode :: "'tok list \<Rightarrow> string"

text \<open>A chunk is the dictionary \<^verbatim>\<open>{"text": ..., "metadata": {...}}\<close>.\<close>

record chunk =
  ctext :: string
  metadata :: pydict

subsection \<open>\<^verbatim>\<open>SemanticChunkingStrategy\<close>\<close>

record 'tok SemanticChunkingStrategy =
  max_chunk_size :: int
  overlap :: int
  tokenizer :: "'tok tokenizer"

text \<open>\<^verbatim>\<open>len(self.tokenizer.encode(s))\<close>.\<close>

definition ntokens :: "'tok SemanticChunkingStrategy \<Rightarrow> string \<Rightarrow> int" where
  "ntokens self s = int (length (encode (tokenizer self) s))"

text \<open>
  \<^verbatim>\<open>re.split(r'(?<=[.!?])\s+', text)\<close>: a match is a whole run of whitespace that
  follows a full stop, an exclamation mark or a question mark.
\<close>

definition is_sentence_end :: "char \<Rightarrow> bool" where
  "is_sentence_end c = (c = CHR ''.'' \<or> c = CHR ''!'' \<or> c = CHR ''?'')"

function re_split_sentences :: "string \<Rightarrow> string \<Rightarrow> string list" where
  "re_split_sentences acc [] = [acc]"
| "re_split_sentences acc (c # cs) =
     (if is_sentence_end c \<and> cs \<noteq> [] \<and> is_space (hd cs)
      then (acc @ [c]) # re_split_sentences [] (dropWhile is_space cs)
      else re_split_sentences (acc @ [c]) cs)"
  by pat_completeness auto
termination
  by (relation "measure (\<lambda>(acc, s). length s)")
     (auto simp: length_dropWhile_le less_Suc_eq_le)

text \<open>\<^verbatim>\<open>[s.strip() for s in sentences if s.strip()]\<close>.\<close>

definition split_by_sentences :: "string \<Rightarrow> string list" where
  "split_by_sentences s =
     map strip (filter (\<lambda>x. strip x \<noteq> []) (re_split_sentences [] s))"

definition create_chunk ::
  "'tok SemanticChunkingStrategy \<Rightarrow> string \<Rightarrow> pydict \<Rightarrow> int \<Rightarrow> chunk" where
  "create_chunk self s md chunk_index =
     \<lparr>ctext = strip s,
      metadata = AList.update ''token_count'' (PInt (ntokens self s))
                   (AList.update ''chunk_index'' (PInt chunk_index) md)\<rparr>"

text \<open>
  The state of the loop of \<^verbatim>\<open>chunk_text\<close>: \<^verbatim>\<open>chunks\<close>,
  \<^verbatim>\<open>current_chunk\<close> and \<^verbatim>\<open>current_tokens\<close>. The body of the loop handles a
  paragraph (\<open>add_paragraph\<close>): a paragraph over the budget goes through the inner loop
  over its sentences, any other paragraph is added as it is. The two branches differ in
  the separator only (\<open>add_piece\<close>): flush the buffer when the piece would exceed the
  budget and the buffer is not empty, otherwise append the piece.
\<close>

type_synonym chunk_state = "chunk list \<times> string \<times> int"

definition add_piece ::
  "'tok SemanticChunkingStrategy \<Rightarrow> pydict \<Rightarrow> string \<Rightarrow> chunk_state \<Rightarrow> string \<Rightarrow> chunk_state" where
  "add_piece self md sep st piece =
     (case st of (chunks, current_chunk, current_tokens) \<Rightarrow>
        let piece_tokens = ntokens self piece
        in if current_tokens + piece_tokens > max_chunk_size self \<and> current_chunk \<noteq> []
           then (chunks @ [create_chunk self current_chunk md (int (length chunks))],
                 piece, piece_tokens)
           else (chunks,
                 (if current_chunk \<noteq> [] then current_chunk @ sep @ piece else piece),
                 current_tokens + piece_tokens))"

definition add_paragraph ::
  "'tok SemanticChunkingStrategy \<Rightarrow> pydict \<Rightarrow> chunk_state \<Rightarrow> string \<Rightarrow> chunk_state" where
  "add_paragraph self md st paragraph =
     (if ntokens self paragraph > max_chunk_size self
      then foldl (add_piece self md '' '') st (split_by_sentences paragraph)
      else add_piece self md [CHR 0x0A, CHR 0x0A] st paragraph)"

definition chunk_text ::
  "'tok SemanticChunkingStrategy \<Rightarrow> string \<Rightarrow> pydict \<Rightarrow> chunk list" where
  "chunk_text self s md =
     (case foldl (add_paragraph self md) ([], [], 0) (split_paragraphs s) of
        (chunks, current_chunk, current_tokens) \<Rightarrow>
          if current_chunk \<noteq> []
          then chunks @ [create_chunk self current_chunk md (int (length chunks))]
          else chunks)"

subsection \<open>\<^verbatim>\<open>FixedSizeChunkingStrategy\<close>\<close>

text \<open>
  The \<^verbatim>\<open>chunk_text\<close> of the fixed strategy (\<open>fixed_chunk_text\<close>) encodes the
  text, walks over \<^verbatim>\<open>range(0, len(tokens), self.chunk_size - self.overlap)\<close> and
  decodes the window \<^verbatim>\<open>tokens[i:i + self.chunk_size]\<close> at each start. A step of
  zero makes \<^verbatim>\<open>range\<close> raise.
\<close>

record 'tok FixedSizeChunkingStrategy =
  chunk_size :: int
  window_overlap :: int
  window_tokenizer :: "'tok tokenizer"

definition window_chunk ::
  "'tok FixedSizeChunkingStrategy \<Rightarrow> 'tok list \<Rightarrow> pydict \<Rightarrow> int \<Rightarrow> int \<Rightarrow> chunk" where
  "window_chunk self tokens md i chunk_index =
     (let chunk_tokens = py_slice tokens i (i + chunk_size self)
      in \<lparr>ctext = decode (window_tokenizer self) chunk_tokens,
          metadata =
            AList.update ''end_token'' (PInt (i + int (length chunk_tokens)))
              (AList.update ''start_token'' (PInt i)
                (AList.update ''token_count'' (PInt (int (length chunk_tokens)))
                  (AList.update ''chunk_index'' (PInt chunk_index) md)))\<rparr>)"

fun window_loop ::
  "'tok FixedSizeChunkingStrategy \<Rightarrow> 'tok list \<Rightarrow> pydict \<Rightarrow> int list \<Rightarrow> chunk list \<Rightarrow> chunk list" where
  "window_loop self tokens md [] chunks = chunks"
| "window_loop self tokens md (i # is) chunks =
     window_loop self tokens md is
       (chunks @ [window_chunk self tokens md i (int (length chunks))])"

definition fixed_chunk_text ::
  "'tok FixedSizeChunkingStrategy \<Rightarrow> string \<Rightarrow> pydict \<Rightarrow> error + chunk list" where
  "fixed_chunk_text self s md =
     (let tokens = encode (window_tokenizer self) s
      in case py_range0 (length tokens) (chunk_size self - window_overlap self) of
           Inl e \<Rightarrow> Inl e
         | Inr starts \<Rightarrow> Inr (window_loop self tokens md starts []))"

text \<open>
  A tokenizer for concrete runs: one token for each character.
\<close>

definition char_tokenizer :: "char tokenizer" where
  "char_tokenizer = \<lparr>encode = (\<lambda>s. s), decode = (\<lambda>ts. ts)\<rparr>"

section \<open>Observations on chunks\<close>

text \<open>The ordinal a chunk carries: \<^verbatim>\<open>chunk["metadata"]["chunk_index"]\<close>.\<close>

definition chunk_index_of :: "chunk \<Rightarrow> pyval" where
  "chunk_index_of c = dict_get (metadata c) ''chunk_index''"

definition ordinals_ok :: "chunk list \<Rightarrow> bool" where
  "ordinals_ok cs = (map chunk_index_of cs = map (\<lambda>i. PInt (int i)) [0..<length cs])"

subsection \<open>Pieces, budgets and windows\<close>






text \<open>The characters of a text that are not whitespace, in their order.\<close>

definition nonspace :: "string \<Rightarrow> string" where
  "nonspace s = filter (\<lambda>c. \<not> is_space c) s"



subsection \<open>Invariants of the semantic loop\<close>









text \<open>The characters, whitespace apart, that a state of the loop holds.\<close>

definition kept_chars :: "chunk_state \<Rightarrow> string" where
  "kept_chars st = (case st of (chunks, cur, toks) \<Rightarrow> nonspace (concat (map ctext chunks) @ cur))"

section \<open>The vector store\<close>

text \<open>
  The payload \<^verbatim>\<open>add_documents\<close> stores with a point, which is also the
  \<^verbatim>\<open>result\<close> dictionary a search hands back.
\<close>

record payload =
  ptext :: string
  pmetadata :: pydict
  document_id :: pyval
  file_path :: pyval
  chunk_index :: pyval
  token_count :: pyval

record point =
  point_id :: string
  pvector :: vector
  ppayload :: payload

text \<open>
  Modelled from the spec: the vector database is an opaque network service outside the
  repository (the Qdrant client). Its \<^verbatim>\<open>upsert\<close> stores each point under its id and
  replaces a stored point that has the same id, so that one point is left for an id, with
  the latest payload; a client whose service is down raises the failure of the service.
\<close>

record qdrant =
  outage :: "error option"
  stored :: "(string \<times> vector \<times> payload) list"

definition client_upsert :: "qdrant \<Rightarrow> point list \<Rightarrow> error + qdrant" where
  "client_upsert db points =
     (case outage db of
        Some e \<Rightarrow> Inl e
      | None \<Rightarrow>
          Inr (db\<lparr>stored :=
                 foldl (\<lambda>al p. AList.update (point_id p) (pvector p, ppayload p) al)
                   (stored db) points\<rparr>))"

definition payload_of :: "chunk \<Rightarrow> payload" where
  "payload_of c =
     \<lparr>ptext = ctext c,
      pmetadata = metadata c,
      document_id = dict_get (metadata c) ''document_id'',
      file_path = dict_get (metadata c) ''file_path'',
      chunk_index = dict_get (metadata c) ''chunk_index'',
      token_count = dict_get (metadata c) ''token_count''\<rparr>"

text \<open>
  \<^verbatim>\<open>uuid.uuid4()\<close> draws a random identifier. The draws are a sequence \<open>uuid4\<close>, and
  \<open>k\<close> counts the draws made so far. The loop of \<^verbatim>\<open>add_documents\<close> over
  \<^verbatim>\<open>zip(chunks, embeddings)\<close> builds one point for each pair.
\<close>

fun make_points :: "(nat \<Rightarrow> string) \<Rightarrow> nat \<Rightarrow> (chunk \<times> vector) list \<Rightarrow> point list" where
  "make_points uuid4 k [] = []"
| "make_points uuid4 k ((c, embedding) # rest) =
     \<lparr>point_id = uuid4 k, pvector = embedding, ppayload = payload_of c\<rparr>
       # make_points uuid4 (Suc k) rest"

text \<open>
  \<^verbatim>\<open>QdrantVectorStore.add_documents\<close>: the point ids, the collection after the
  upsert and the number of draws made; a failing upsert is logged and raised again.
\<close>

definition add_documents ::
  "(nat \<Rightarrow> string) \<Rightarrow> nat \<Rightarrow> qdrant \<Rightarrow> chunk list \<Rightarrow> vector list
     \<Rightarrow> error + (string list \<times> qdrant \<times> nat)" where
  "add_documents uuid4 k db chunks embeddings =
     (let points = make_points uuid4 k (zip chunks embeddings);
          point_ids = map point_id points
      in case client_upsert db points of
           Inl e \<Rightarrow> Inl e
         | Inr db' \<Rightarrow> Inr (point_ids, db', k + length points))"

text \<open>The stored points that hold the payload of a chunk.\<close>

definition points_of_chunk :: "qdrant \<Rightarrow> chunk \<Rightarrow> (string \<times> vector \<times> payload) list" where
  "points_of_chunk db c = filter (\<lambda>p. snd (snd p) = payload_of c) (stored db)"

text \<open>
  \<^verbatim>\<open>add_documents\<close> called twice, the second call on the collection the first one
  left.
\<close>

definition add_documents_twice ::
  "(nat \<Rightarrow> string) \<Rightarrow> nat \<Rightarrow> qdrant \<Rightarrow> chunk list \<Rightarrow> vector list \<Rightarrow> vector list
     \<Rightarrow> error + (string list \<times> string list \<times> qdrant)" where
  "add_documents_twice uuid4 k db chunks embeddings1 embeddings2 =
     (case add_documents uuid4 k db chunks embeddings1 of
        Inl e \<Rightarrow> Inl e
      | Inr (ids1, db1, k1) \<Rightarrow>
          (case add_documents uuid4 k1 db1 chunks embeddings2 of
             Inl e \<Rightarrow> Inl e
           | Inr (ids2, db2, k2) \<Rightarrow> Inr (ids1, ids2, db2)))"

text \<open>
  \<^verbatim>\<open>search_similar\<close>: the filter is built from a non-empty \<^verbatim>\<open>filters\<close>
  dictionary, the search itself is the client's, and each hit gives its payload and score.
\<close>

type_synonym client_search =
  "vector \<Rightarrow> int \<Rightarrow> real \<Rightarrow> pydict option \<Rightarrow> error + (payload \<times> real) list"

definition search_similar ::
  "client_search \<Rightarrow> vector \<Rightarrow> int \<Rightarrow> real \<Rightarrow> pydict option
     \<Rightarrow> error + (payload \<times> real) list" where
  "search_similar client query_embedding limit score_threshold filters =
     (let search_filter =
            (case filters of
               None \<Rightarrow> None
             | Some f \<Rightarrow> if f = [] then None else Some f)
      in client query_embedding limit score_threshold search_filter)"

section \<open>The RAG service\<close>

subsection \<open>Re-ranking\<close>

text \<open>
  The keyword score of \<^verbatim>\<open>_rerank_results\<close>: the query and the text are put in
  lower case and split at whitespace, both word lists become sets, and the score is the
  share of the query words that are words of the text (0 for a query without words).
\<close>

definition keyword_score :: "string \<Rightarrow> string \<Rightarrow> real" where
  "keyword_score query s =
     (let query_words = set (py_split (lower query));
          text_words = set (py_split (lower s));
          shared = card (query_words \<inter> text_words)
      in if query_words \<noteq> {} then real shared / real (card query_words) else 0)"

definition combined_score :: "string \<Rightarrow> payload \<times> real \<Rightarrow> real" where
  "combined_score query hit =
     (case hit of (result, similarity_score) \<Rightarrow>
        (similarity_score * 0.7) + (keyword_score query (ptext result) * 0.3))"

text \<open>
  \<^verbatim>\<open>sorted(xs, key=..., reverse=True)\<close>: descending by key, and stable (equal keys
  keep the order of the input).
\<close>

definition sorted_reverse :: "('a \<Rightarrow> real) \<Rightarrow> 'a list \<Rightarrow> 'a list" where
  "sorted_reverse key xs = sort_key (\<lambda>x. - key x) xs"

definition rerank_results :: "string \<Rightarrow> (payload \<times> real) list \<Rightarrow> (payload \<times> real) list" where
  "rerank_results query search_results =
     (let scored_results = map (\<lambda>hit. (fst hit, combined_score query hit)) search_results
      in sorted_reverse snd scored_results)"

text \<open>
  What \<^verbatim>\<open>query_knowledge_base\<close> keeps of the search results:
  \<^verbatim>\<open>ranked_results[:max_results]\<close>.
\<close>

definition top_results :: "string \<Rightarrow> (payload \<times> real) list \<Rightarrow> int \<Rightarrow> (payload \<times> real) list" where
  "top_results query search_results max_results =
     py_slice (rerank_results query search_results) 0 max_results"

subsection \<open>Context and sources\<close>

text \<open>Decimal digits of a number, for \<^verbatim>\<open>f"[Source {i+1}]"\<close>.\<close>

fun str_of_nat :: "nat \<Rightarrow> string" where
  "str_of_nat n =
     (if n < 10 then [''0123456789'' ! n]
      else str_of_nat (n div 10) @ [''0123456789'' ! (n mod 10)])"

declare str_of_nat.simps [simp del]

text \<open>\<^verbatim>\<open>sep.join(parts)\<close>.\<close>

fun join :: "string \<Rightarrow> string list \<Rightarrow> string" where
  "join sep [] = []"
| "join sep [p] = p"
| "join sep (p # q # ps) = p @ sep @ join sep (q # ps)"

text \<open>
  \<^verbatim>\<open>_prepare_context\<close>. The function \<open>render\<close> is Python's formatting of a
  metadata value inside an f-string.
\<close>

definition source_info :: "(pyval \<Rightarrow> string) \<Rightarrow> nat \<Rightarrow> payload \<Rightarrow> string" where
  "source_info render i result =
     (let s0 = ''[Source '' @ str_of_nat (i + 1) @ '']'';
          s1 = (case map_of (pmetadata result) ''title'' of
                  Some t \<Rightarrow> s0 @ '' '' @ render t | None \<Rightarrow> s0)
      in case map_of (pmetadata result) ''author'' of
           Some a \<Rightarrow> s1 @ '' by '' @ render a | None \<Rightarrow> s1)"

definition prepare_context :: "(pyval \<Rightarrow> string) \<Rightarrow> (payload \<times> real) list \<Rightarrow> string" where
  "prepare_context render results =
     join [CHR 0x0A]
       (map (\<lambda>(i, (result, score)).
               source_info render i result @ [CHR 0x0A] @ ptext result @ [CHR 0x0A])
          (enumerate 0 results))"

text \<open>\<^verbatim>\<open>round(score, 3)\<close>, half to even.\<close>

definition round_half_even :: "real \<Rightarrow> int" where
  "round_half_even x =
     (let f = \<lfloor>x\<rfloor>; d = x - of_int f
      in if d < 1/2 then f else if d > 1/2 then f + 1 else if even f then f else f + 1)"

definition round3 :: "real \<Rightarrow> real" where
  "round3 x = of_int (round_half_even (x * 1000)) / 1000"

definition prepare_source :: "payload \<times> real \<Rightarrow> pydict" where
  "prepare_source hit =
     (case hit of (result, score) \<Rightarrow>
        [(''title'', dict_get_default (pmetadata result) ''title'' (PStr ''Unknown Document'')),
         (''file_path'', dict_get_default (pmetadata result) ''file_path'' (PStr [])),
         (''chunk_index'', dict_get_default (pmetadata result) ''chunk_index'' (PInt 0)),
         (''score'', PFloat (round3 score)),
         (''preview'', PStr (if length (ptext result) > 200
                             then take 200 (ptext result) @ ''...''
                             else ptext result))])"

definition prepare_sources :: "(payload \<times> real) list \<Rightarrow> pydict list" where
  "prepare_sources results = map prepare_source results"

subsection \<open>Generation and the query operation\<close>

record message =
  role :: string
  content :: string

text \<open>
  The external capabilities of the service: the embedding and the completion call of
  \<^verbatim>\<open>AzureAIService\<close> and the search of the Qdrant client.
\<close>

record services =
  generate_embedding :: embedder
  generate_response :: "message list \<Rightarrow> error + string"
  search_client :: client_search

definition rag_system_prompt :: "string \<Rightarrow> string" where
  "rag_system_prompt context_block =
     (let nl = [CHR 0x0A]; ind = replicate 10 (CHR '' '')
      in ''You are an AI assistant with access to a knowledge base. '' @ nl
         @ ind @ ''Use the provided context to answer the user'' @ [CHR 0x27]
               @ ''s question accurately.'' @ nl
         @ ind @ ''If the context doesn'' @ [CHR 0x27]
               @ ''t contain relevant information, say so and provide a general response based on your knowledge.'' @ nl
         @ ind @ nl
         @ ind @ ''Context from knowledge base:'' @ nl
         @ ind @ context_block @ nl
         @ ind)"

text \<open>\<^verbatim>\<open>conversation_history[-5:]\<close>: the last five messages.\<close>

definition last5 :: "'a list \<Rightarrow> 'a list" where
  "last5 xs = drop (length xs - 5) xs"

definition generate_rag_response ::
  "services \<Rightarrow> string \<Rightarrow> string \<Rightarrow> message list \<Rightarrow> error + string" where
  "generate_rag_response env query context_block conversation_history =
     generate_response env
       ([\<lparr>role = ''system'', content = rag_system_prompt context_block\<rparr>]
        @ last5 conversation_history
        @ [\<lparr>role = ''user'', content = query\<rparr>])"

text \<open>
  The \<^verbatim>\<open>try\<close> block of \<^verbatim>\<open>query_knowledge_base\<close>: embed the query, search
  with twice \<^verbatim>\<open>max_results\<close>, re-rank and cut, build the context, generate, list
  the sources.
\<close>

definition query_steps ::
  "services \<Rightarrow> (pyval \<Rightarrow> string) \<Rightarrow> string \<Rightarrow> message list \<Rightarrow> pydict option \<Rightarrow> int \<Rightarrow> real
     \<Rightarrow> error + (string \<times> pydict list)" where
  "query_steps env render query conversation_history filters max_results score_threshold =
     (case generate_embedding env query of
        Inl e \<Rightarrow> Inl e
      | Inr query_embedding \<Rightarrow>
          (case search_similar (search_client env) query_embedding (max_results * 2)
                  score_threshold filters of
             Inl e \<Rightarrow> Inl e
           | Inr search_results \<Rightarrow>
               (let top = top_results query search_results max_results;
                    context_block = prepare_context render top
                in case generate_rag_response env query context_block conversation_history of
                     Inl e \<Rightarrow> Inl e
                   | Inr response \<Rightarrow> Inr (response, prepare_sources top))))"

text \<open>
  \<^verbatim>\<open>query_knowledge_base\<close>: whatever the \<^verbatim>\<open>try\<close> block raises is caught by
  \<^verbatim>\<open>except Exception\<close>, logged, and answered by the general completion with no
  sources. Only a failure of that last call leaves the operation.
\<close>

definition fallback_messages :: "string \<Rightarrow> message list" where
  "fallback_messages query =
     [\<lparr>role = ''system'', content = ''You are a helpful AI assistant.''\<rparr>,
      \<lparr>role = ''user'', content = query\<rparr>]"

definition query_knowledge_base ::
  "services \<Rightarrow> (pyval \<Rightarrow> string) \<Rightarrow> string \<Rightarrow> message list \<Rightarrow> pydict option \<Rightarrow> int \<Rightarrow> real
     \<Rightarrow> error + (string \<times> pydict list)" where
  "query_knowledge_base env render query conversation_history filters max_results score_threshold =
     (case query_steps env render query conversation_history filters max_results
             score_threshold of
        Inr answer \<Rightarrow> Inr answer
      | Inl e \<Rightarrow>
          (case generate_response env (fallback_messages query) of
             Inl e' \<Rightarrow> Inl e'
           | Inr fallback_response \<Rightarrow> Inr (fallback_response, [])))"

subsection \<open>The ranking in the words of the specification\<close>







section \<open>Streaming the answer\<close>

text \<open>
  \<^verbatim>\<open>ChatService.stream_rag_response\<close> is an asynchronous generator: it yields the
  JSON text of one dictionary after another. An event is the dictionary handed to
  \<^verbatim>\<open>json.dumps\<close>. Saving the message is a call to the document database, which
  returns the id of the stored message or raises; what the generator yielded before stays
  yielded. The result is the list of events and the exception that ended the generator,
  if one did.
\<close>

type_synonym saver = "string \<Rightarrow> string \<Rightarrow> string \<Rightarrow> string \<Rightarrow> pydict list \<Rightarrow> error + string"

definition sources_event :: "string \<Rightarrow> pydict list \<Rightarrow> pydict" where
  "sources_event session_id sources =
     [(''type'', PStr ''sources''),
      (''sources'', PList (map PDict sources)),
      (''session_id'', PStr session_id)]"

definition chunk_event :: "string \<Rightarrow> string \<Rightarrow> pydict" where
  "chunk_event session_id word =
     [(''type'', PStr ''chunk''),
      (''content'', PStr (word @ '' '')),
      (''session_id'', PStr session_id)]"

definition complete_event :: "string \<Rightarrow> string \<Rightarrow> pydict" where
  "complete_event session_id message_id =
     [(''type'', PStr ''complete''),
      (''session_id'', PStr session_id),
      (''message_id'', PStr message_id)]"

definition stream_rag_response ::
  "saver \<Rightarrow> string \<Rightarrow> string \<Rightarrow> string \<Rightarrow> string \<Rightarrow> pydict list
     \<Rightarrow> pydict list \<times> error option" where
  "stream_rag_response save_chat_message_with_sources session_id user_id user_message
       rag_response sources =
     (let words = py_split rag_response;
          full_response = concat (map (\<lambda>word. word @ '' '') words);
          yielded = sources_event session_id sources # map (chunk_event session_id) words
      in case save_chat_message_with_sources session_id user_id user_message
                (strip full_response) sources of
           Inl e \<Rightarrow> (yielded, Some e)
         | Inr message_id \<Rightarrow> (yielded @ [complete_event session_id message_id], None))"

section \<open>The indexing job\<close>

record IndexingJob =
  job_id :: string
  config :: pydict
  status :: string
  progress :: real
  total_files :: int
  processed_files :: int
  errors :: "string list"
  start_time :: "nat option"
  end_time :: "nat option"

text \<open>
  What the job calls outside itself: the discovery of the files, the indexing of one file
  (the RAG service and the file records), the saving of the job status, and the two
  readings of the clock.
\<close>

record indexing_env =
  discover_files :: "pydict \<Rightarrow> error + string list"
  index_single_file :: "string \<Rightarrow> error + bool"
  update_job_status :: "IndexingJob \<Rightarrow> error + unit"
  utcnow_start :: nat
  utcnow_end :: nat

text \<open>
  The loop over the results of \<^verbatim>\<open>asyncio.gather(*tasks, return_exceptions=True)\<close>:
  an exception adds a line to \<^verbatim>\<open>job.errors\<close>, a result counts a processed file.
\<close>

fun record_results :: "IndexingJob \<Rightarrow> (string \<times> (error + bool)) list \<Rightarrow> IndexingJob" where
  "record_results job [] = job"
| "record_results job ((path, Inl e) # rest) =
     record_results
       (job\<lparr>errors := errors job @ [''Error processing '' @ path @ '': '' @ str_of_error e]\<rparr>)
       rest"
| "record_results job ((path, Inr r) # rest) =
     record_results (job\<lparr>processed_files := processed_files job + 1\<rparr>) rest"

text \<open>
  \<^verbatim>\<open>_process_files_batch\<close> together with the loop of
  \<^verbatim>\<open>_execute_indexing_job\<close> that consumes it: a batch is indexed, its results are
  recorded, the progress is computed (a division by \<^verbatim>\<open>job.total_files\<close>), yielded,
  stored in the job and saved. The job is changed in place, so an exception leaves the job
  as it was when it was raised.
\<close>

fun process_files_batch ::
  "indexing_env \<Rightarrow> string list \<Rightarrow> int \<Rightarrow> int list \<Rightarrow> IndexingJob \<Rightarrow> error option \<times> IndexingJob" where
  "process_files_batch env files batch_size [] job = (None, job)"
| "process_files_batch env files batch_size (i # is) job =
     (let batch = py_slice files i (i + batch_size);
          results = map (index_single_file env) batch;
          job1 = record_results job (zip batch results)
      in if total_files job1 = 0 then (Some ZeroDivisionError, job1)
         else
           (let job2 = job1\<lparr>progress :=
                             (real_of_int (processed_files job1) / real_of_int (total_files job1))
                               * 100\<rparr>
            in case update_job_status env job2 of
                 Inl e \<Rightarrow> (Some e, job2)
               | Inr u \<Rightarrow> process_files_batch env files batch_size is job2))"

text \<open>
  \<^verbatim>\<open>job.config.get("batch_size", 10)\<close> as the step of \<^verbatim>\<open>range\<close>, which
  accepts an integer (a Boolean is one) and raises \<^verbatim>\<open>TypeError\<close> otherwise.
\<close>

definition batch_size_of :: "pydict \<Rightarrow> error + int" where
  "batch_size_of cfg =
     (case dict_get_default cfg ''batch_size'' (PInt 10) of
        PInt n \<Rightarrow> Inr n
      | PBool b \<Rightarrow> Inr (if b then 1 else 0)
      | _ \<Rightarrow> Inl (TypeError ''object cannot be interpreted as an integer''))"

text \<open>The \<^verbatim>\<open>try\<close> block of \<^verbatim>\<open>_execute_indexing_job\<close>.\<close>

definition run_job :: "indexing_env \<Rightarrow> IndexingJob \<Rightarrow> error option \<times> IndexingJob" where
  "run_job env job =
     (let job1 = job\<lparr>status := ''running'', start_time := Some (utcnow_start env)\<rparr>
      in case update_job_status env job1 of
           Inl e \<Rightarrow> (Some e, job1)
         | Inr u \<Rightarrow>
             (case discover_files env (config job1) of
                Inl e \<Rightarrow> (Some e, job1)
              | Inr files_to_index \<Rightarrow>
                  (let job2 = job1\<lparr>total_files := int (length files_to_index)\<rparr>
                   in case update_job_status env job2 of
                        Inl e \<Rightarrow> (Some e, job2)
                      | Inr u \<Rightarrow>
                          (case batch_size_of (config job2) of
                             Inl e \<Rightarrow> (Some e, job2)
                           | Inr batch_size \<Rightarrow>
                               (case py_range0 (length files_to_index) batch_size of
                                  Inl e \<Rightarrow> (Some e, job2)
                                | Inr starts \<Rightarrow>
                                    (case process_files_batch env files_to_index batch_size
                                            starts job2 of
                                       (Some e, job3) \<Rightarrow> (Some e, job3)
                                     | (None, job3) \<Rightarrow>
                                         (None, job3\<lparr>status := ''completed'',
                                                     end_time := Some (utcnow_end env)\<rparr>)))))))"

text \<open>
  \<^verbatim>\<open>_execute_indexing_job\<close>: the \<^verbatim>\<open>except\<close> clause marks the job failed and
  records the exception; the \<^verbatim>\<open>finally\<close> clause saves the status, and an exception
  of that call is the only one that leaves the function.
\<close>

definition execute_indexing_job ::
  "indexing_env \<Rightarrow> IndexingJob \<Rightarrow> error option \<times> IndexingJob" where
  "execute_indexing_job env job =
     (let job' =
            (case run_job env job of
               (None, j) \<Rightarrow> j
             | (Some e, j) \<Rightarrow>
                 j\<lparr>status := ''failed'',
                   errors := errors j @ [str_of_error e],
                   end_time := Some (utcnow_end env)\<rparr>)
      in case update_job_status env job' of
           Inl e \<Rightarrow> (Some e, job')
         | Inr u \<Rightarrow> (None, job'))"

text \<open>
  The error lines and the number of indexed files that a list of files calls for, one file
  after the other.
\<close>

definition error_lines :: "indexing_env \<Rightarrow> string list \<Rightarrow> string list" where
  "error_lines env files =
     concat (map (\<lambda>path. case index_single_file env path of
                            Inl e \<Rightarrow> [''Error processing '' @ path @ '': '' @ str_of_error e]
                          | Inr r \<Rightarrow> [])
               files)"

definition indexed_count :: "indexing_env \<Rightarrow> string list \<Rightarrow> int" where
  "indexed_count env files =
     int (length (filter (\<lambda>path. case index_single_file env path of
                                    Inl e \<Rightarrow> False | Inr r \<Rightarrow> True) files))"

text \<open>The job after a run of batches over the files \<open>batch\<close>.\<close>

definition batch_done :: "indexing_env \<Rightarrow> string list \<Rightarrow> IndexingJob \<Rightarrow> IndexingJob" where
  "batch_done env batch job =
     job\<lparr>errors := errors job @ error_lines env batch,
         processed_files := processed_files job + indexed_count env batch,
         progress := (real_of_int (processed_files job + indexed_count env batch)
                        / real_of_int (total_files job)) * 100\<rparr>"

definition after_batches :: "indexing_env \<Rightarrow> string list \<Rightarrow> IndexingJob \<Rightarrow> IndexingJob" where
  "after_batches env rest job = (if rest = [] then job else batch_done env rest job)"

section \<open>Concrete runs\<close>

text \<open>
  Inputs for the concrete runs below: a formatting of scalar metadata values, services
  whose embedding call fails, savers of chat messages, a sequence of identifiers, an empty
  collection, a chunk, and an indexing job over three files of which the second cannot be
  embedded.
\<close>

definition render_scalar :: "pyval \<Rightarrow> string" where
  "render_scalar v =
     (case v of
        PStr s \<Rightarrow> s
      | PInt n \<Rightarrow> (if n < 0 then ''-'' @ str_of_nat (nat (- n)) else str_of_nat (nat n))
      | PBool b \<Rightarrow> (if b then ''True'' else ''False'')
      | PNone \<Rightarrow> ''None''
      | _ \<Rightarrow> [])"

definition failing_embedding_services :: services where
  "failing_embedding_services =
     \<lparr>generate_embedding = (\<lambda>q. Inl (EmbeddingServiceError ''embedding endpoint down'')),
      generate_response = (\<lambda>ms. Inr ''general answer''),
      search_client = (\<lambda>v l t f. Inr [])\<rparr>"

definition failing_services :: services where
  "failing_services =
     \<lparr>generate_embedding = (\<lambda>q. Inl (EmbeddingServiceError ''embedding endpoint down'')),
      generate_response = (\<lambda>ms. Inl (GenerationError ''completion endpoint down'')),
      search_client = (\<lambda>v l t f. Inr [])\<rparr>"

definition saver_ok :: saver where
  "saver_ok session_id user_id user_message ai_response sources = Inr ''msg-1''"

definition saver_down :: saver where
  "saver_down session_id user_id user_message ai_response sources =
     Inl (DatabaseError ''database down'')"

definition uuid_seq :: "nat \<Rightarrow> string" where
  "uuid_seq k = ''id-'' @ str_of_nat k"

definition empty_collection :: qdrant where
  "empty_collection = \<lparr>outage = None, stored = []\<rparr>"

definition sample_chunk :: chunk where
  "sample_chunk =
     \<lparr>ctext = ''refund policy'',
      metadata = [(''document_id'', PStr ''doc-1''), (''chunk_index'', PInt 0),
                  (''token_count'', PInt 2)]\<rparr>"

definition sample_indexing_env :: indexing_env where
  "sample_indexing_env =
     \<lparr>discover_files = (\<lambda>cfg. Inr [''a.pdf'', ''b.pdf'', ''c.pdf'']),
      index_single_file =
        (\<lambda>path. if path = ''b.pdf'' then Inl (EmbeddingServiceError ''embedding failed'')
                 else Inr True),
      update_job_status = (\<lambda>job. Inr ()),
      utcnow_start = 100,
      utcnow_end = 200\<rparr>"

definition sample_job :: "int \<Rightarrow> IndexingJob" where
  "sample_job n =
     \<lparr>job_id = ''idx_1'', config = [(''batch_size'', PInt n)], status = ''pending'',
      progress = 0, total_files = 0, processed_files = 0, errors = [],
      start_time = None, end_time = None\<rparr>"






section \<open>Batched embedding keeps order and length\<close>

lemma gather_total:
  "(\<And>x. x \<in> set xs \<Longrightarrow> gen x = Inr (f x)) \<Longrightarrow> gather gen xs = Inr (map f xs)"
  by (induction xs) auto

lemma py_slice_window:
  "0 \<le> i \<Longrightarrow> 0 < w \<Longrightarrow> py_slice xs i (i + w) = take (nat w) (drop (nat i) xs)"
  by (auto simp: py_slice_def slice_bound_def Let_def min_def nat_add_distrib)

lemma embeddings_loop_total:
  "0 \<le> i \<Longrightarrow> 0 < bs \<Longrightarrow> (\<And>x. x \<in> set texts \<Longrightarrow> gen x = Inr (f x)) \<Longrightarrow>
   embeddings_loop gen texts bs (range_up i (int (length texts)) bs) acc
     = Inr (acc @ map f (drop (nat i) texts))"
proof (induction i "int (length texts)" bs arbitrary: acc rule: range_up.induct)
  case (1 i step)
  show ?case
  proof (cases "i < int (length texts)")
    case False
    with 1 show ?thesis by (simp add: range_up.simps)
  next
    case True
    have sub: "set (take (nat step) (drop (nat i) texts)) \<subseteq> set texts"
      by (meson set_take_subset set_drop_subset subset_trans)
    have g: "gather gen (py_slice texts i (i + step))
           = Inr (map f (take (nat step) (drop (nat i) texts)))"
      using 1(2,3) sub by (simp add: py_slice_window gather_total 1(4) subset_iff)
    have ih: "embeddings_loop gen texts step (range_up (i + step) (int (length texts)) step) acc'
         = Inr (acc' @ map f (drop (nat (i + step)) texts))" for acc'
      using 1(1)[of acc'] 1(2,3,4) True by simp
    have d: "drop (nat (i + step)) texts = drop (nat step) (drop (nat i) texts)"
      using 1(2,3) by (simp add: nat_add_distrib add.commute)
    have "embeddings_loop gen texts step (range_up i (int (length texts)) step) acc
        = embeddings_loop gen texts step (range_up (i + step) (int (length texts)) step)
            (acc @ map f (take (nat step) (drop (nat i) texts)))"
      using True 1(3) g by (subst range_up.simps) simp
    also have "\<dots> = Inr ((acc @ map f (take (nat step) (drop (nat i) texts)))
                        @ map f (drop (nat step) (drop (nat i) texts)))"
      unfolding ih d ..
    also have "\<dots> = Inr (acc @ map f (take (nat step) (drop (nat i) texts)
                        @ drop (nat step) (drop (nat i) texts)))"
      by (simp only: map_append append_assoc)
    finally show ?thesis
      by (simp only: append_take_drop_id)
  qed
qed

text \<open>
  Claim C9. With a positive \<^verbatim>\<open>batch_size\<close> and an embedding capability that answers
  every input text (it is then a function \<open>f\<close> from text to vector),
  \<^verbatim>\<open>_generate_embeddings_batch\<close> returns exactly the vectors \<open>f t\<close> of the input
  texts, one for each text and in the order of the texts: cutting the list into batches
  drops no input and permutes none.
\<close>

theorem generate_embeddings_batch_order_length:
  assumes "0 < batch_size"
    and "\<forall>t \<in> set texts. gen t = Inr (f t)"
  shows "generate_embeddings_batch gen texts batch_size = Inr (map f texts)"
  using assms embeddings_loop_total[of 0 batch_size texts gen f "[]"]
  by (simp add: generate_embeddings_batch_def py_range0_def)

theorem generate_embeddings_batch_order_length_witness:
  "(0::int) < 2
   \<and> generate_embeddings_batch (\<lambda>t. Inr [real (length t)]) [''a'', ''bb'', ''ccc''] 2
       = Inr [[1], [2], [3]]"
  using generate_embeddings_batch_order_length
    [of 2 "[''a'', ''bb'', ''ccc'']" "\<lambda>t. Inr [real (length t)]" "\<lambda>t. [real (length t)]"]
  by simp

section \<open>Chunk ordinals\<close>

lemma ordinals_ok_Nil: "ordinals_ok []"
  by (simp add: ordinals_ok_def)

lemma ordinals_ok_snoc:
  "ordinals_ok cs \<Longrightarrow> chunk_index_of c = PInt (int (length cs)) \<Longrightarrow> ordinals_ok (cs @ [c])"
  by (simp add: ordinals_ok_def)

lemma chunk_index_create_chunk: "chunk_index_of (create_chunk self s md i) = PInt i"
  by (simp add: chunk_index_of_def create_chunk_def dict_get_def update_conv')

lemma chunk_index_window_chunk: "chunk_index_of (window_chunk self tokens md i k) = PInt k"
  by (simp add: chunk_index_of_def window_chunk_def dict_get_def update_conv' Let_def)

lemma add_piece_ordinals:
  "ordinals_ok (fst st) \<Longrightarrow> ordinals_ok (fst (add_piece self md sep st piece))"
  by (cases st) (simp add: add_piece_def Let_def ordinals_ok_snoc chunk_index_create_chunk)

lemma foldl_add_piece_ordinals:
  "ordinals_ok (fst st) \<Longrightarrow> ordinals_ok (fst (foldl (add_piece self md sep) st ps))"
  by (induction ps arbitrary: st) (simp_all add: add_piece_ordinals)

lemma add_paragraph_ordinals:
  "ordinals_ok (fst st) \<Longrightarrow> ordinals_ok (fst (add_paragraph self md st p))"
  by (simp add: add_paragraph_def foldl_add_piece_ordinals add_piece_ordinals)

lemma foldl_add_paragraph_ordinals:
  "ordinals_ok (fst st) \<Longrightarrow> ordinals_ok (fst (foldl (add_paragraph self md) st ps))"
  by (induction ps arbitrary: st) (simp_all add: add_paragraph_ordinals)

lemma chunk_text_ordinals: "ordinals_ok (chunk_text self s md)"
proof -
  obtain cs cur n
    where st: "foldl (add_paragraph self md) ([], [], 0) (split_paragraphs s) = (cs, cur, n)"
    by (cases "foldl (add_paragraph self md) ([], [], 0) (split_paragraphs s)") auto
  have "ordinals_ok (fst (foldl (add_paragraph self md) ([], [], 0) (split_paragraphs s)))"
    by (rule foldl_add_paragraph_ordinals) (simp add: ordinals_ok_Nil)
  then have "ordinals_ok cs" by (simp add: st)
  then show ?thesis
    by (simp add: chunk_text_def st ordinals_ok_snoc chunk_index_create_chunk)
qed

lemma window_loop_ordinals:
  "ordinals_ok cs \<Longrightarrow> ordinals_ok (window_loop self tokens md starts cs)"
  by (induction starts arbitrary: cs) (simp_all add: ordinals_ok_snoc chunk_index_window_chunk)

lemma fixed_chunk_text_ordinals:
  "fixed_chunk_text self s md = Inr cs \<Longrightarrow> ordinals_ok cs"
  by (auto simp: fixed_chunk_text_def Let_def ordinals_ok_Nil window_loop_ordinals
           split: sum.splits)

text \<open>
  Claim C7. For every text and metadata, the chunks of the semantic strategy carry the
  \<^verbatim>\<open>chunk_index\<close> values 0, 1, ..., n-1 in this order, and so do the chunks of the
  fixed-window strategy whenever it returns a chunk list (it raises \<^verbatim>\<open>ValueError\<close>
  when the overlap equals the chunk size): no gap and no duplicate. A
  \<^verbatim>\<open>chunk_index\<close> already present in the metadata is overwritten.
\<close>

theorem chunk_ordinals_contiguous:
  "map chunk_index_of (chunk_text self s md)
     = map (\<lambda>i. PInt (int i)) [0..<length (chunk_text self s md)]
   \<and> (\<forall>cs. fixed_chunk_text fself s md = Inr cs \<longrightarrow>
         map chunk_index_of cs = map (\<lambda>i. PInt (int i)) [0..<length cs])"
  using chunk_text_ordinals[of self s md] fixed_chunk_text_ordinals[of fself s md]
  by (simp add: ordinals_ok_def)

theorem chunk_ordinals_contiguous_witness:
  "fixed_chunk_text \<lparr>chunk_size = 3, window_overlap = 1, window_tokenizer = char_tokenizer\<rparr>
       ''abcdef'' [(''title'', PStr ''T'')] =
     Inr [\<lparr>ctext = ''abc'', metadata = [(''title'', PStr ''T''), (''chunk_index'', PInt 0),
            (''token_count'', PInt 3), (''start_token'', PInt 0), (''end_token'', PInt 3)]\<rparr>,
          \<lparr>ctext = ''cde'', metadata = [(''title'', PStr ''T''), (''chunk_index'', PInt 1),
            (''token_count'', PInt 3), (''start_token'', PInt 2), (''end_token'', PInt 5)]\<rparr>,
          \<lparr>ctext = ''ef'', metadata = [(''title'', PStr ''T''), (''chunk_index'', PInt 2),
            (''token_count'', PInt 2), (''start_token'', PInt 4), (''end_token'', PInt 6)]\<rparr>]
   \<and> map chunk_index_of
        [\<lparr>ctext = ''abc'', metadata = [(''title'', PStr ''T''), (''chunk_index'', PInt 0),
            (''token_count'', PInt 3), (''start_token'', PInt 0), (''end_token'', PInt 3)]\<rparr>,
          \<lparr>ctext = ''cde'', metadata = [(''title'', PStr ''T''), (''chunk_index'', PInt 1),
            (''token_count'', PInt 3), (''start_token'', PInt 2), (''end_token'', PInt 5)]\<rparr>,
          \<lparr>ctext = ''ef'', metadata = [(''title'', PStr ''T''), (''chunk_index'', PInt 2),
            (''token_count'', PInt 2), (''start_token'', PInt 4), (''end_token'', PInt 6)]\<rparr>]
      = [PInt 0, PInt 1, PInt 2]"
  (is "?run \<and> ?idx")
proof -
  have run: ?run
    by (simp add: fixed_chunk_text_def char_tokenizer_def py_range0_def range_up.simps
          window_chunk_def py_slice_def slice_bound_def Let_def)
  have ?idx
    using chunk_ordinals_contiguous
      [of "\<lparr>max_chunk_size = 3, overlap = 0, tokenizer = char_tokenizer\<rparr>" "''abcdef''"
          "[(''title'', PStr ''T'')]"
          "\<lparr>chunk_size = 3, window_overlap = 1, window_tokenizer = char_tokenizer\<rparr>"]
    unfolding run by simp
  with run show ?thesis by simp
qed

section \<open>The semantic strategy never reads its overlap\<close>

lemma ntokens_overlap: "ntokens (self\<lparr>overlap := a\<rparr>) = ntokens self"
  by (rule ext) (simp add: ntokens_def)

lemma create_chunk_overlap: "create_chunk (self\<lparr>overlap := a\<rparr>) = create_chunk self"
  by (intro ext) (simp add: create_chunk_def ntokens_overlap)

lemma add_piece_overlap: "add_piece (self\<lparr>overlap := a\<rparr>) = add_piece self"
  by (intro ext) (simp add: add_piece_def ntokens_overlap create_chunk_overlap Let_def
        split: prod.split)

lemma add_paragraph_overlap: "add_paragraph (self\<lparr>overlap := a\<rparr>) = add_paragraph self"
  by (intro ext) (simp add: add_paragraph_def ntokens_overlap add_piece_overlap)

section \<open>Re-ranking\<close>










section \<open>A failing query embedding\<close>

text \<open>
  Claim C2, as stated: when the embedding of the query fails, \<^verbatim>\<open>query_knowledge_base\<close>
  raises. It does not: with an embedding capability that is down and a completion
  capability that answers, the operation returns the general answer and no sources.
\<close>

theorem query_embedding_failure_counterexample:
  "generate_embedding failing_embedding_services ''refund policy''
     = Inl (EmbeddingServiceError ''embedding endpoint down'')
   \<and> query_knowledge_base failing_embedding_services render_scalar ''refund policy'' [] None 5
       (7 / 10)
       = Inr (''general answer'', [])"
  by (simp add: query_knowledge_base_def query_steps_def failing_embedding_services_def)

text \<open>
  Claim C2, amended. When the embedding of the query fails, the failure is caught inside
  \<^verbatim>\<open>query_knowledge_base\<close>: the operation asks the completion capability for a
  general answer to the query and returns it with an empty source list. It raises only when
  this fallback call raises, and then with the failure of the fallback call.
\<close>

theorem query_embedding_failure_falls_back:
  assumes "generate_embedding env query = Inl e"
  shows "query_knowledge_base env render query conversation_history filters max_results
           score_threshold
         = (case generate_response env (fallback_messages query) of
              Inl e' \<Rightarrow> Inl e'
            | Inr fallback_response \<Rightarrow> Inr (fallback_response, []))"
  using assms by (simp add: query_knowledge_base_def query_steps_def)

theorem query_embedding_failure_falls_back_witness:
  "generate_embedding failing_services ''refund policy''
     = Inl (EmbeddingServiceError ''embedding endpoint down'')
   \<and> query_knowledge_base failing_services render_scalar ''refund policy'' [] None 5 (7 / 10)
       = Inl (GenerationError ''completion endpoint down'')"
  using query_embedding_failure_falls_back
    [of failing_services "''refund policy''" "EmbeddingServiceError ''embedding endpoint down''"
        render_scalar "[]" None 5 "7 / 10"]
  by (simp add: failing_services_def)

section \<open>Assembling an answer from no results\<close>

text \<open>
  Claim C5, as stated: with an empty result list the assembler sets a
  \<^verbatim>\<open>no_sources\<close> flag and never raises. The first event of the stream is the sources
  event with an empty list, and it has no \<^verbatim>\<open>no_sources\<close> key; when the message
  cannot be saved the stream ends with the exception of the database.
\<close>

theorem empty_results_counterexample:
  "fst (stream_rag_response saver_ok ''s1'' ''u1'' ''hi'' ''Hello world'' [])
     = [[(''type'', PStr ''sources''), (''sources'', PList []), (''session_id'', PStr ''s1'')],
        [(''type'', PStr ''chunk''), (''content'', PStr ''Hello ''), (''session_id'', PStr ''s1'')],
        [(''type'', PStr ''chunk''), (''content'', PStr ''world ''), (''session_id'', PStr ''s1'')],
        [(''type'', PStr ''complete''), (''session_id'', PStr ''s1''),
         (''message_id'', PStr ''msg-1'')]]
   \<and> map_of (hd (fst (stream_rag_response saver_ok ''s1'' ''u1'' ''hi'' ''Hello world'' [])))
        ''no_sources'' = None
   \<and> snd (stream_rag_response saver_down ''s1'' ''u1'' ''hi'' ''Hello world'' [])
       = Some (DatabaseError ''database down'')"
  by (simp add: stream_rag_response_def py_split_def is_space_def saver_ok_def saver_down_def
        sources_event_def chunk_event_def complete_event_def Let_def)

text \<open>
  Claim C5, amended. With an empty result list \<^verbatim>\<open>_prepare_context\<close> returns the empty
  string and \<^verbatim>\<open>_prepare_sources\<close> the empty list, so no citation is made up; the
  system prompt is still built around the (empty) context block and sent to the completion
  capability; the stream starts with the sources event carrying \<^verbatim>\<open>sources = []\<close>; no
  event of the stream has a \<^verbatim>\<open>no_sources\<close> key; and the stream raises exactly when
  saving the message raises.
\<close>

theorem empty_results_assembly:
  "prepare_context render [] = []
   \<and> prepare_sources [] = []
   \<and> generate_rag_response env query (prepare_context render []) history
       = generate_response env
           ([\<lparr>role = ''system'', content = rag_system_prompt []\<rparr>] @ last5 history
            @ [\<lparr>role = ''user'', content = query\<rparr>])
   \<and> hd (fst (stream_rag_response save sid uid um resp []))
       = [(''type'', PStr ''sources''), (''sources'', PList []), (''session_id'', PStr sid)]
   \<and> list_all (\<lambda>ev. map_of ev ''no_sources'' = None)
        (fst (stream_rag_response save sid uid um resp srcs))
   \<and> snd (stream_rag_response save sid uid um resp srcs)
       = (case save sid uid um (strip (concat (map (\<lambda>w. w @ '' '') (py_split resp)))) srcs of
            Inl e \<Rightarrow> Some e
          | Inr mid \<Rightarrow> None)"
  by (auto simp: prepare_context_def prepare_sources_def generate_rag_response_def
        stream_rag_response_def Let_def sources_event_def chunk_event_def complete_event_def
        list_all_iff split: sum.splits)

theorem empty_results_assembly_witness:
  "prepare_context render_scalar [] = []
   \<and> hd (fst (stream_rag_response saver_down ''s1'' ''u1'' ''hi'' ''Hello'' []))
       = [(''type'', PStr ''sources''), (''sources'', PList []), (''session_id'', PStr ''s1'')]
   \<and> snd (stream_rag_response saver_down ''s1'' ''u1'' ''hi'' ''Hello'' [])
       = Some (DatabaseError ''database down'')"
  using empty_results_assembly
    [of render_scalar failing_services "''q''" "[]" saver_down "''s1''" "''u1''" "''hi''"
        "''Hello''" "[]"]
  by (simp add: saver_down_def)

section \<open>Storing the same chunk twice\<close>

lemma update_fresh: "k \<notin> fst ` set al \<Longrightarrow> AList.update k v al = al @ [(k, v)]"
  by (induction al) auto

text \<open>
  Claim C4, as stated: two calls of \<^verbatim>\<open>add_documents\<close> with the same chunk leave
  exactly one stored point for the chunk. Each call draws a new identifier for the point:
  on an empty collection the two calls leave two points with the payload of the chunk.
\<close>

theorem add_documents_twice_counterexample:
  "add_documents_twice uuid_seq 0 empty_collection [sample_chunk] [[1, 0]] [[1, 0]]
     = Inr ([''id-0''], [''id-1''],
            \<lparr>outage = None,
             stored = [(''id-0'', [1, 0], payload_of sample_chunk),
                       (''id-1'', [1, 0], payload_of sample_chunk)]\<rparr>)
   \<and> length (points_of_chunk
               \<lparr>outage = None,
                stored = [(''id-0'', [1, 0], payload_of sample_chunk),
                          (''id-1'', [1, 0], payload_of sample_chunk)]\<rparr> sample_chunk) = 2"
  by (simp add: add_documents_twice_def add_documents_def client_upsert_def uuid_seq_def
        str_of_nat.simps empty_collection_def points_of_chunk_def)

text \<open>
  Claim C4, amended. \<^verbatim>\<open>add_documents\<close> gives every point a freshly drawn
  identifier, so it is not idempotent per chunk: when the service is up and the two
  identifiers drawn are new to the collection and differ from each other, two calls with
  the same chunk return one identifier each and leave two more stored points that hold the
  payload of the chunk, one with the vector of each call.
\<close>

theorem add_documents_twice_two_points:
  assumes "outage db = None"
    and "uuid4 k \<noteq> uuid4 (Suc k)"
    and "uuid4 k \<notin> fst ` set (stored db)"
    and "uuid4 (Suc k) \<notin> fst ` set (stored db)"
  shows "add_documents_twice uuid4 k db [c] [e1] [e2]
           = Inr ([uuid4 k], [uuid4 (Suc k)],
                  db\<lparr>stored := stored db @ [(uuid4 k, e1, payload_of c),
                                             (uuid4 (Suc k), e2, payload_of c)]\<rparr>)
         \<and> length (points_of_chunk
                     (db\<lparr>stored := stored db @ [(uuid4 k, e1, payload_of c),
                                                (uuid4 (Suc k), e2, payload_of c)]\<rparr>) c)
             = length (points_of_chunk db c) + 2"
  using assms
  by (simp add: add_documents_twice_def add_documents_def client_upsert_def update_fresh
        points_of_chunk_def)

theorem add_documents_twice_two_points_witness:
  "outage empty_collection = None
   \<and> uuid_seq 0 \<noteq> uuid_seq (Suc 0)
   \<and> add_documents_twice uuid_seq 0 empty_collection [sample_chunk] [[1, 0]] [[0, 1]]
       = Inr ([''id-0''], [''id-1''],
              \<lparr>outage = None,
               stored = [(''id-0'', [1, 0], payload_of sample_chunk),
                         (''id-1'', [0, 1], payload_of sample_chunk)]\<rparr>)"
  using add_documents_twice_two_points
    [of empty_collection uuid_seq 0 sample_chunk "[1, 0]" "[0, 1]"]
  by (simp add: uuid_seq_def str_of_nat.simps empty_collection_def)

section \<open>An indexing job with failing files\<close>

lemma record_results_explicit:
  "record_results job (zip batch (map (index_single_file env) batch))
     = job\<lparr>errors := errors job @ error_lines env batch,
           processed_files := processed_files job + indexed_count env batch\<rparr>"
proof (induction batch arbitrary: job)
  case Nil
  show ?case by (simp add: error_lines_def indexed_count_def)
next
  case (Cons p ps)
  show ?case
  proof (cases "index_single_file env p")
    case (Inl e)
    then show ?thesis
      using Cons[of "job\<lparr>errors := errors job
                        @ [''Error processing '' @ p @ '': '' @ str_of_error e]\<rparr>"]
      by (simp add: error_lines_def indexed_count_def)
  next
    case (Inr r)
    then show ?thesis
      using Cons[of "job\<lparr>processed_files := processed_files job + 1\<rparr>"]
      by (simp add: error_lines_def indexed_count_def)
  qed
qed

lemma error_lines_append: "error_lines env (xs @ ys) = error_lines env xs @ error_lines env ys"
  by (simp add: error_lines_def)

lemma indexed_count_append:
  "indexed_count env (xs @ ys) = indexed_count env xs + indexed_count env ys"
  by (simp add: indexed_count_def)

lemma process_files_batch_step:
  assumes "\<And>j. update_job_status env j = Inr ()" and "total_files job \<noteq> 0"
    and "0 \<le> i" and "0 < bs"
  shows "process_files_batch env files bs (i # starts) job
       = process_files_batch env files bs starts
           (batch_done env (take (nat bs) (drop (nat i) files)) job)"
  using assms
  by (simp add: py_slice_window record_results_explicit Let_def batch_done_def)

lemma batch_done_twice:
  "batch \<noteq> [] \<Longrightarrow>
   after_batches env rest (batch_done env batch job) = batch_done env (batch @ rest) job"
proof (cases "rest = []")
  case True
  then show ?thesis by (simp add: after_batches_def)
next
  case False
  then show ?thesis
    by (simp add: after_batches_def batch_done_def error_lines_append indexed_count_append
          add.assoc)
qed

lemma process_files_batch_all:
  assumes ok: "\<And>j. update_job_status env j = Inr ()"
  shows "total_files job \<noteq> 0 \<Longrightarrow> 0 \<le> i \<Longrightarrow> 0 < bs \<Longrightarrow>
    process_files_batch env files bs (range_up i (int (length files)) bs) job
      = (None, after_batches env (drop (nat i) files) job)"
proof (induction i "int (length files)" bs arbitrary: job rule: range_up.induct)
  case (1 i step)
  show ?case
  proof (cases "i < int (length files)")
    case False
    with 1 show ?thesis by (simp add: range_up.simps after_batches_def)
  next
    case True
    define batch where "batch = take (nat step) (drop (nat i) files)"
    define rest where "rest = drop (nat step) (drop (nat i) files)"
    have split: "drop (nat i) files = batch @ rest"
      unfolding batch_def rest_def by (rule append_take_drop_id[symmetric])
    have bne: "batch \<noteq> []" using True 1(3,4) by (simp add: batch_def)
    have d: "drop (nat (i + step)) files = rest"
      using 1(3,4) by (simp add: rest_def nat_add_distrib add.commute)
    have tf: "total_files (batch_done env batch job) \<noteq> 0"
      using 1(2) by (simp add: batch_done_def)
    have ih: "process_files_batch env files step
                (range_up (i + step) (int (length files)) step) (batch_done env batch job)
         = (None, after_batches env rest (batch_done env batch job))"
      using 1(1)[OF _ tf] 1(3,4) True d by simp
    have r: "range_up i (int (length files)) step
               = i # range_up (i + step) (int (length files)) step"
      using True 1(4) by (subst range_up.simps) simp
    have "process_files_batch env files step (range_up i (int (length files)) step) job
        = process_files_batch env files step (range_up (i + step) (int (length files)) step)
            (batch_done env batch job)"
      unfolding r batch_def by (rule process_files_batch_step[OF ok 1(2) 1(3) 1(4)])
    also note ih
    also have "after_batches env rest (batch_done env batch job)
                 = batch_done env (batch @ rest) job"
      by (rule batch_done_twice[OF bne])
    finally show ?thesis
      using bne by (simp add: after_batches_def split)
  qed
qed

text \<open>
  Claim C6, as stated: a job in which some files fail finishes with the status
  \<^verbatim>\<open>completed_with_errors\<close>. Three files in batches of one, the second file cannot be
  embedded: the first and the third are indexed, the error of the second is recorded, and
  the status of the finished job is \<^verbatim>\<open>completed\<close>.
\<close>

theorem indexing_job_status_counterexample:
  "status (snd (execute_indexing_job sample_indexing_env (sample_job 1))) = ''completed''
   \<and> errors (snd (execute_indexing_job sample_indexing_env (sample_job 1)))
       = [''Error processing b.pdf: embedding failed'']
   \<and> processed_files (snd (execute_indexing_job sample_indexing_env (sample_job 1))) = 2
   \<and> status (snd (execute_indexing_job sample_indexing_env (sample_job 1)))
       \<noteq> ''completed_with_errors''"
  by (simp add: execute_indexing_job_def run_job_def sample_indexing_env_def sample_job_def
        batch_size_of_def dict_get_default_def py_range0_def range_up.simps Let_def
        py_slice_def slice_bound_def)

text \<open>
  Claim C6, amended. When the job status can be saved, the files are discovered and the
  batch size is positive, a job over at least one file attempts every file, whatever the
  outcome of the others: each failing file adds the line
  \<^verbatim>\<open>Error processing <file>: <error>\<close> to \<^verbatim>\<open>job.errors\<close>, in the order of the
  files, each other file counts in \<^verbatim>\<open>processed_files\<close>, nothing is raised, and the job
  finishes with the status \<^verbatim>\<open>completed\<close>, also when files have failed (the errors and
  the two counters are the summary of the partial success).
\<close>

theorem execute_indexing_job_partial_success:
  assumes "\<And>j. update_job_status env j = Inr ()"
    and "discover_files env (config job) = Inr files"
    and "batch_size_of (config job) = Inr bs"
    and "0 < bs"
    and "files \<noteq> []"
  shows "execute_indexing_job env job
       = (None,
          job\<lparr>status := ''completed'',
              start_time := Some (utcnow_start env),
              end_time := Some (utcnow_end env),
              total_files := int (length files),
              errors := errors job @ error_lines env files,
              processed_files := processed_files job + indexed_count env files,
              progress := (real_of_int (processed_files job + indexed_count env files)
                             / real_of_int (int (length files))) * 100\<rparr>)"
proof -
  let ?job2 = "job\<lparr>status := ''running'', start_time := Some (utcnow_start env),
                   total_files := int (length files)\<rparr>"
  have tf: "total_files ?job2 \<noteq> 0" using assms(5) by simp
  have loop: "process_files_batch env files bs (range_up 0 (int (length files)) bs) ?job2
      = (None, batch_done env files ?job2)"
    using process_files_batch_all[OF assms(1) tf, of 0 bs files] assms(4,5)
    by (simp add: after_batches_def)
  show ?thesis
    using assms
    by (simp add: execute_indexing_job_def run_job_def Let_def py_range0_def loop batch_done_def)
qed

theorem execute_indexing_job_partial_success_witness:
  "discover_files sample_indexing_env (config (sample_job 2))
     = Inr [''a.pdf'', ''b.pdf'', ''c.pdf'']
   \<and> batch_size_of (config (sample_job 2)) = Inr 2
   \<and> execute_indexing_job sample_indexing_env (sample_job 2)
       = (None,
          \<lparr>job_id = ''idx_1'', config = [(''batch_size'', PInt 2)], status = ''completed'',
           progress = 200 / 3, total_files = 3, processed_files = 2,
           errors = [''Error processing b.pdf: embedding failed''],
           start_time = Some 100, end_time = Some 200\<rparr>)"
proof -
  have ok: "\<And>j. update_job_status sample_indexing_env j = Inr ()"
    by (simp add: sample_indexing_env_def)
  have d: "discover_files sample_indexing_env (config (sample_job 2))
             = Inr [''a.pdf'', ''b.pdf'', ''c.pdf'']"
    by (simp add: sample_indexing_env_def)
  have b: "batch_size_of (config (sample_job 2)) = Inr 2"
    by (simp add: batch_size_of_def dict_get_default_def sample_job_def)
  show ?thesis
    using execute_indexing_job_partial_success[OF ok d b] d b
    by (simp add: sample_job_def sample_indexing_env_def error_lines_def indexed_count_def)
qed

section \<open>The token budget of the semantic strategy\<close>

subsection \<open>Every chunk comes from a group within the budget\<close>















subsection \<open>A sentence over the budget is flushed alone\<close>











subsection \<open>The metadata of a chunk\<close>











section \<open>Coverage of the source text\<close>

subsection \<open>The semantic strategy keeps what is not whitespace\<close>

text \<open>
  Splitting at blank lines, splitting into sentences and stripping remove whitespace only,
  and the separators that join pieces are whitespace: the characters that are not
  whitespace go through the loop unchanged and in order.
\<close>

lemma nonspace_Nil: "nonspace [] = []"
  by (simp add: nonspace_def)

lemma nonspace_Cons: "nonspace (c # cs) = (if is_space c then nonspace cs else c # nonspace cs)"
  by (simp add: nonspace_def)

lemma nonspace_append: "nonspace (a @ b) = nonspace a @ nonspace b"
  by (simp add: nonspace_def)

lemma nonspace_dropWhile: "nonspace (dropWhile is_space s) = nonspace s"
  by (induction s) (simp_all add: nonspace_def)

lemma nonspace_rev: "nonspace (rev s) = rev (nonspace s)"
  by (simp add: nonspace_def rev_filter)

lemma nonspace_strip: "nonspace (strip s) = nonspace s"
  by (simp add: strip_def nonspace_rev nonspace_dropWhile)

lemma strip_empty_nonspace: "strip s = [] \<Longrightarrow> nonspace s = []"
  by (metis nonspace_strip nonspace_Nil)

lemma nonspace_separators: "nonspace '' '' = []" "nonspace [CHR 0x0A, CHR 0x0A] = []"
  by (simp_all add: nonspace_def is_space_def)

lemma is_space_newline: "is_space (CHR 0x0A)"
  by (simp add: is_space_def)

lemma nonspace_split_nn: "nonspace (concat (split_nn acc s)) = nonspace (acc @ s)"
  by (induction acc s rule: split_nn.induct)
     (auto simp: nonspace_append nonspace_Cons nonspace_Nil is_space_newline)

lemma nonspace_split_paragraphs: "nonspace (concat (split_paragraphs s)) = nonspace s"
  by (simp add: split_paragraphs_def nonspace_split_nn)

lemma nonspace_re_split: "nonspace (concat (re_split_sentences acc s)) = nonspace (acc @ s)"
proof (induction acc s rule: re_split_sentences.induct)
  case (1 acc)
  show ?case by simp
next
  case (2 acc c cs)
  show ?case
  proof (cases "is_sentence_end c \<and> cs \<noteq> [] \<and> is_space (hd cs)")
    case True
    with 2(1) have "nonspace (concat (re_split_sentences [] (dropWhile is_space cs)))
                    = nonspace (dropWhile is_space cs)" by simp
    with True show ?thesis
      by (simp add: nonspace_append nonspace_Cons nonspace_dropWhile)
  next
    case False
    with 2(2) show ?thesis by (auto simp: nonspace_append nonspace_Cons)
  qed
qed

lemma nonspace_concat_strip_filter:
  "nonspace (concat (map strip (filter (\<lambda>x. strip x \<noteq> []) xs))) = nonspace (concat xs)"
  by (induction xs) (auto simp: nonspace_append nonspace_strip strip_empty_nonspace nonspace_Nil)

lemma nonspace_split_by_sentences: "nonspace (concat (split_by_sentences p)) = nonspace p"
  by (simp add: split_by_sentences_def nonspace_concat_strip_filter nonspace_re_split)

lemma add_piece_kept_chars:
  "nonspace sep = [] \<Longrightarrow>
   kept_chars (add_piece self md sep st p) = kept_chars st @ nonspace p"
  by (cases st)
     (simp add: add_piece_def kept_chars_def Let_def nonspace_append nonspace_strip
        create_chunk_def nonspace_Nil)

lemma foldl_add_piece_kept_chars:
  "nonspace sep = [] \<Longrightarrow>
   kept_chars (foldl (add_piece self md sep) st xs) = kept_chars st @ nonspace (concat xs)"
  by (induction xs arbitrary: st)
     (simp_all add: add_piece_kept_chars nonspace_append nonspace_Nil)

lemma add_paragraph_kept_chars:
  "kept_chars (add_paragraph self md st p) = kept_chars st @ nonspace p"
  by (simp add: add_paragraph_def foldl_add_piece_kept_chars add_piece_kept_chars
        nonspace_split_by_sentences nonspace_separators)

lemma foldl_add_paragraph_kept_chars:
  "kept_chars (foldl (add_paragraph self md) st ps) = kept_chars st @ nonspace (concat ps)"
  by (induction ps arbitrary: st)
     (simp_all add: add_paragraph_kept_chars nonspace_append nonspace_Nil)

lemma chunk_text_nonspace:
  "nonspace (concat (map ctext (chunk_text self s md))) = nonspace s"
proof -
  obtain chunks cur toks
    where st: "foldl (add_paragraph self md) ([], [], 0) (split_paragraphs s) = (chunks, cur, toks)"
    by (cases "foldl (add_paragraph self md) ([], [], 0) (split_paragraphs s)") auto
  have "kept_chars (chunks, cur, toks) = nonspace s"
    using foldl_add_paragraph_kept_chars[of self md "([], [], 0)" "split_paragraphs s"]
    by (simp add: st kept_chars_def nonspace_split_paragraphs nonspace_Nil)
  then show ?thesis
    by (auto simp add: chunk_text_def st kept_chars_def nonspace_append nonspace_strip
          create_chunk_def nonspace_Nil)
qed

subsection \<open>The windows of the fixed strategy\<close>









text \<open>
  Claim C10. The constructor of the semantic strategy stores \<^verbatim>\<open>overlap\<close>, and
  \<^verbatim>\<open>chunk_text\<close> never consults it: for every text, every metadata and any two
  overlap values the chunk sequences are identical. The chunks carry no overlap at all:
  whatever the parameter, the characters of the chunk texts that are not whitespace are
  those of the source text, each once and in order, so nothing of the text is repeated
  from one chunk to the next.
\<close>

theorem chunk_text_ignores_overlap:
  "chunk_text (self\<lparr>overlap := a\<rparr>) s md = chunk_text (self\<lparr>overlap := b\<rparr>) s md
   \<and> nonspace (concat (map ctext (chunk_text (self\<lparr>overlap := a\<rparr>) s md))) = nonspace s"
proof
  show "chunk_text (self\<lparr>overlap := a\<rparr>) s md = chunk_text (self\<lparr>overlap := b\<rparr>) s md"
    by (simp add: chunk_text_def add_paragraph_overlap create_chunk_overlap split: prod.split)
  show "nonspace (concat (map ctext (chunk_text (self\<lparr>overlap := a\<rparr>) s md))) = nonspace s"
    by (rule chunk_text_nonspace)
qed

end
